theory Spec2Isabelle
  imports Main
begin

section \<open>Python values used by main.py\<close>

text \<open>
  The values that \<^verbatim>\<open>json.loads\<close> produces and that the script stores in
  \<^verbatim>\<open>st.session_state\<close>. A Python \<^verbatim>\<open>str\<close> is a \<open>string\<close> whose characters are read
  as code points below 256. A \<^verbatim>\<open>dict\<close> is an association list in insertion order
  (lookup by \<open>map_of\<close>); Python's \<^verbatim>\<open>None\<close> is \<open>JNull\<close>. A float is kept as mantissa
  and binary exponent, or as one of the special values; the script only ever tests a
  float for truth.
\<close>

datatype pyfloat = Finite int int | Infinity bool | NaN

datatype json =
    JNull
  | JBool bool
  | JInt int
  | JFloat pyfloat
  | JStr string
  | JList "json list"
  | JDict "(string \<times> json) list"

text \<open>
  The exceptions the script can meet. \<open>RecursionError\<close> and \<open>ValueError\<close> are what the
  JSON decoder raises, besides \<open>JSONDecodeError\<close>, on a text nested deeper than the
  interpreter allows and on an integer literal longer than the digit limit.
  \<open>OtherError\<close> is any other subclass of \<^verbatim>\<open>Exception\<close> that \<^verbatim>\<open>requests.post\<close> raises
  (connection refused, timeout, ...), tagged with a description.
\<close>

datatype py_exc =
    JSONDecodeError
  | RecursionError
  | ValueError
  | KeyError
  | IndexError
  | TypeError
  | AttributeError
  | UnboundLocalError
  | OtherError string

text \<open>\<^verbatim>\<open>c.isspace()\<close> for a code point below 256.\<close>

definition py_isspace :: "char \<Rightarrow> bool" where
  "py_isspace c =
     (let n = (of_char c :: nat)
      in (9 \<le> n \<and> n \<le> 13) \<or> (28 \<le> n \<and> n \<le> 32) \<or> n = 133 \<or> n = 160)"

text \<open>\<^verbatim>\<open>s.strip()\<close>: leading and trailing whitespace removed.\<close>

definition py_strip :: "string \<Rightarrow> string" where
  "py_strip s = rev (dropWhile py_isspace (rev (dropWhile py_isspace s)))"

text \<open>\<^verbatim>\<open>needle in hay\<close> for two strings: \<open>needle\<close> occurs as a contiguous substring.\<close>

fun is_prefix :: "string \<Rightarrow> string \<Rightarrow> bool" where
  "is_prefix [] ys = True"
| "is_prefix (x # xs) [] = False"
| "is_prefix (x # xs) (y # ys) = (x = y \<and> is_prefix xs ys)"

fun is_substring :: "string \<Rightarrow> string \<Rightarrow> bool" where
  "is_substring needle [] = (needle = [])"
| "is_substring needle (y # ys) = (is_prefix needle (y # ys) \<or> is_substring needle ys)"

text \<open>
  \<^verbatim>\<open>key in v\<close> with a string \<open>key\<close>: key membership for a dict, substring test for a
  str, element membership for a list (only a str element can equal a str), and
  \<^verbatim>\<open>TypeError\<close> for a value that is not a container.
\<close>

fun py_in :: "string \<Rightarrow> json \<Rightarrow> py_exc + bool" where
  "py_in key (JDict kvs) = Inr (map_of kvs key \<noteq> None)"
| "py_in key (JStr s) = Inr (is_substring key s)"
| "py_in key (JList xs) = Inr (JStr key \<in> set xs)"
| "py_in key v = Inl TypeError"

text \<open>\<^verbatim>\<open>v[key]\<close> with a string \<open>key\<close>: only a dict can be subscripted by a str.\<close>

fun py_getitem :: "json \<Rightarrow> string \<Rightarrow> py_exc + json" where
  "py_getitem (JDict kvs) key =
     (case map_of kvs key of None \<Rightarrow> Inl KeyError | Some v \<Rightarrow> Inr v)"
| "py_getitem v key = Inl TypeError"

text \<open>
  \<^verbatim>\<open>v[0]\<close>: the first element of a list, the first character of a str (as a str of
  length one), \<^verbatim>\<open>KeyError\<close> on a dict decoded from JSON (its keys are all strs), and
  \<^verbatim>\<open>TypeError\<close> otherwise.
\<close>

fun py_getitem0 :: "json \<Rightarrow> py_exc + json" where
  "py_getitem0 (JList []) = Inl IndexError"
| "py_getitem0 (JList (x # xs)) = Inr x"
| "py_getitem0 (JStr []) = Inl IndexError"
| "py_getitem0 (JStr (c # cs)) = Inr (JStr [c])"
| "py_getitem0 (JDict kvs) = Inl KeyError"
| "py_getitem0 v = Inl TypeError"

text \<open>Truth value of a Python object, as \<^verbatim>\<open>if v:\<close> tests it.\<close>

fun py_truthy :: "json \<Rightarrow> bool" where
  "py_truthy JNull = False"
| "py_truthy (JBool b) = b"
| "py_truthy (JInt n) = (n \<noteq> 0)"
| "py_truthy (JFloat f) = (case f of Finite m e \<Rightarrow> m \<noteq> 0 | _ \<Rightarrow> True)"
| "py_truthy (JStr s) = (s \<noteq> [])"
| "py_truthy (JList xs) = (xs \<noteq> [])"
| "py_truthy (JDict kvs) = (kvs \<noteq> [])"

text \<open>\<^verbatim>\<open>str(n)\<close> for an int, as the f-string of the failure message formats it.\<close>

definition digit_char :: "nat \<Rightarrow> char" where
  "digit_char d =
     (if d = 0 then CHR ''0'' else if d = 1 then CHR ''1'' else if d = 2 then CHR ''2''
      else if d = 3 then CHR ''3'' else if d = 4 then CHR ''4'' else if d = 5 then CHR ''5''
      else if d = 6 then CHR ''6'' else if d = 7 then CHR ''7'' else if d = 8 then CHR ''8''
      else CHR ''9'')"

fun str_nat :: "nat \<Rightarrow> string" where
  "str_nat n =
     (if n < 10 then [digit_char n] else str_nat (n div 10) @ [digit_char (n mod 10)])"

declare str_nat.simps [simp del]

definition str_int :: "int \<Rightarrow> string" where
  "str_int i = (if i < 0 then CHR ''-'' # str_nat (nat (- i)) else str_nat (nat i))"

section \<open>The outside world\<close>

text \<open>
  What \<^verbatim>\<open>get_career_advice\<close> hands to \<^verbatim>\<open>requests.post\<close>, and what comes back. The
  payload is kept as the Python value that \<^verbatim>\<open>json.dumps\<close> serialises.
\<close>

record request =
  url :: string
  headers :: "(string \<times> string) list"
  payload :: json

record response =
  status_code :: int
  resp_text :: string

text \<open>
  Everything the function takes from its environment:
  \<^item> \<open>API_KEY\<close>, the module-level credential (\<open>[]\<close> when neither the secrets store nor
    the environment variable provides one);
  \<^item> \<open>json_loads\<close>, the JSON decoder of the standard library applied to a str, used
    by both \<^verbatim>\<open>json.loads\<close> and \<^verbatim>\<open>response.json()\<close>: the decoded value, or the exception
    raised. \<open>Inl JSONDecodeError\<close> is the decoder's verdict that the text is not a
    JSON document (with \<^verbatim>\<open>requests\<close> on the standard decoder, the exception of
    \<^verbatim>\<open>response.json()\<close> is a subclass of \<^verbatim>\<open>json.JSONDecodeError\<close>); any other exception,
    such as \<open>RecursionError\<close> or \<open>ValueError\<close>, is the decoder giving up for another
    reason;
  \<^item> \<open>requests_post\<close>, the network: the reply to a request, or the exception raised;
  \<^item> \<open>str_exc\<close>, the interpreter's \<^verbatim>\<open>str(e)\<close>.
\<close>

record env =
  API_KEY :: string
  json_loads :: "string \<Rightarrow> py_exc + json"
  requests_post :: "request \<Rightarrow> py_exc + response"
  str_exc :: "py_exc \<Rightarrow> string"

section \<open>get\_career\_advice\<close>

definition system_prompt :: string where
  "system_prompt =
     ''You are a career advisor assistant. '' @
     ''Given a user conversation, perform these steps:'' @ [CHR 0x0A] @
     ''1. Extract user interests and preferences.'' @ [CHR 0x0A] @
     ''2. Map those interests to suitable career paths based on the interests provided.'' @ [CHR 0x0A] @
     ''3. For each recommended path, generate a short explanation why it suits the user.'' @ [CHR 0x0A] @
     ''If no clear interests are found, ask a clarifying question.'' @ [CHR 0x0A] @
     ''Respond only in JSON with one of the following structures:'' @ [CHR 0x0A] @
     ''- {'' @ [CHR 0x22] @ ''interests'' @ [CHR 0x22] @ '': [...], '' @
       [CHR 0x22] @ ''mapping'' @ [CHR 0x22] @ '': {...}, '' @
       [CHR 0x22] @ ''explanations'' @ [CHR 0x22] @ '': {...}}'' @ [CHR 0x0A] @
     ''- {'' @ [CHR 0x22] @ ''clarify'' @ [CHR 0x22] @ '': '' @
       [CHR 0x22] @ ''<question>'' @ [CHR 0x22] @ ''}'' @ [CHR 0x0A]"

definition build_request :: "env \<Rightarrow> string \<Rightarrow> request" where
  "build_request e conversation =
     \<lparr> url = ''https://openrouter.ai/api/v1/chat/completions'',
       headers = [(''Authorization'', ''Bearer '' @ API_KEY e),
                  (''Content-Type'', ''application/json'')],
       payload = JDict
         [(''model'', JStr ''mistralai/devstral-small:free''),
          (''messages'', JList
             [JDict [(''role'', JStr ''system''), (''content'', JStr system_prompt)],
              JDict [(''role'', JStr ''user''),
                     (''content'', JStr (''Conversation: '' @ conversation))]])] \<rparr>"

text \<open>\<^verbatim>\<open>body["choices"][0]["message"]["content"]\<close>, left to right.\<close>

definition message_content :: "json \<Rightarrow> py_exc + json" where
  "message_content body =
     (case py_getitem body ''choices'' of
        Inl x \<Rightarrow> Inl x
      | Inr choices \<Rightarrow>
          (case py_getitem0 choices of
             Inl x \<Rightarrow> Inl x
           | Inr choice \<Rightarrow>
               (case py_getitem choice ''message'' of
                  Inl x \<Rightarrow> Inl x
                | Inr message \<Rightarrow> py_getitem message ''content'')))"

text \<open>
  \<^verbatim>\<open>json.loads(content)\<close>: \<^verbatim>\<open>TypeError\<close> for an argument that is not a str, and for
  a str whatever the decoder makes of it.
\<close>

definition loads :: "env \<Rightarrow> json \<Rightarrow> py_exc + json" where
  "loads e content =
     (case content of
        JStr s \<Rightarrow> json_loads e s
      | _ \<Rightarrow> Inl TypeError)"

text \<open>
  The two \<^verbatim>\<open>except\<close> clauses. \<open>content\<close> is the local variable of that name, \<open>None\<close>
  while it has not been assigned. The first clause evaluates \<^verbatim>\<open>content.strip()\<close>; an
  exception raised there is inside a handler, so the second clause does not catch it.
\<close>

definition on_exception :: "env \<Rightarrow> json option \<Rightarrow> py_exc \<Rightarrow> py_exc + json" where
  "on_exception e content x =
     (if x = JSONDecodeError then
        (case content of
           None \<Rightarrow> Inl UnboundLocalError
         | Some (JStr s) \<Rightarrow> Inr (JDict [(''clarify'', JStr (py_strip s))])
         | Some _ \<Rightarrow> Inl AttributeError)
      else Inr (JDict [(''error'', JStr (''Error: '' @ str_exc e x))]))"

text \<open>
  The function returns the requests it has posted (always exactly one) together with
  its result: \<open>Inr\<close> the returned value, \<open>Inl\<close> an exception that escapes.
\<close>

definition get_career_advice :: "env \<Rightarrow> string \<Rightarrow> request list \<times> (py_exc + json)" where
  "get_career_advice e conversation =
     (let req = build_request e conversation in
      ([req],
       case requests_post e req of
         Inl x \<Rightarrow> on_exception e None x
       | Inr response \<Rightarrow>
           if status_code response \<noteq> 200 then
             Inr (JDict [(''error'',
                    JStr (''Request failed ('' @ str_int (status_code response) @ ''): ''
                          @ resp_text response))])
           else
             (case json_loads e (resp_text response) of
                Inl x \<Rightarrow> on_exception e None x
              | Inr body \<Rightarrow>
                  (case message_content body of
                     Inl x \<Rightarrow> on_exception e None x
                   | Inr content \<Rightarrow>
                       (case loads e content of
                          Inl x \<Rightarrow> on_exception e (Some content) x
                        | Inr v \<Rightarrow> Inr v)))))"

section \<open>The session and the three steps of the script\<close>

text \<open>
  \<^verbatim>\<open>st.session_state\<close> after the initialisation block: the five keys are always
  present. \<open>clarify_question\<close> and \<open>results\<close> hold whatever value the reply carried.
\<close>

datatype step = step_initial | step_clarify | step_results

record session =
  step :: step
  conversation :: string
  clarify_question :: json
  clarify_response :: string
  results :: json

definition init_session :: session where
  "init_session =
     \<lparr> step = step_initial, conversation = [], clarify_question = JStr [],
       clarify_response = [], results = JNull \<rparr>"

text \<open>
  What one execution of the script leaves behind: the session, the messages shown by
  \<^verbatim>\<open>st.error\<close> and \<^verbatim>\<open>st.warning\<close> (labels, headings and the rendering of the results
  are not recorded), the requests posted, and how the execution ended: at the last
  line, by \<^verbatim>\<open>st.rerun()\<close>, by \<^verbatim>\<open>st.stop()\<close>, or by an exception nobody caught.
\<close>

datatype ui = st_error json | st_warning string

datatype ending = Completed | Rerun | Stopped | Raised py_exc

record run =
  state :: session
  shown :: "ui list"
  posted :: "request list"
  ending :: ending

text \<open>
  The values the widgets return in one execution: the text of the text area and of
  the text input, and for each button whether it was clicked.
\<close>

record widgets =
  text_area :: string
  text_input :: string
  initial_button :: bool
  clarify_button :: bool
  start_over :: bool
  new_analysis :: bool

text \<open>The body of \<^verbatim>\<open>if st.button("Get Advice", key="initial_button")\<close>.\<close>

definition on_initial_button :: "env \<Rightarrow> session \<Rightarrow> run" where
  "on_initial_button e s =
     (if py_strip (conversation s) \<noteq> [] then
        (let (sent, r) = get_career_advice e (conversation s) in
         case r of
           Inl x \<Rightarrow> \<lparr> state = s, shown = [], posted = sent, ending = Raised x \<rparr>
         | Inr result \<Rightarrow>
             (case py_in ''error'' result of
                Inl x \<Rightarrow> \<lparr> state = s, shown = [], posted = sent, ending = Raised x \<rparr>
              | Inr has_error \<Rightarrow>
                  if has_error then
                    (case py_getitem result ''error'' of
                       Inl x \<Rightarrow> \<lparr> state = s, shown = [], posted = sent, ending = Raised x \<rparr>
                     | Inr msg \<Rightarrow>
                         \<lparr> state = s, shown = [st_error msg], posted = sent,
                           ending = Completed \<rparr>)
                  else
                    (case py_in ''clarify'' result of
                       Inl x \<Rightarrow> \<lparr> state = s, shown = [], posted = sent, ending = Raised x \<rparr>
                     | Inr has_clarify \<Rightarrow>
                         if has_clarify then
                           (case py_getitem result ''clarify'' of
                              Inl x \<Rightarrow>
                                \<lparr> state = s, shown = [], posted = sent, ending = Raised x \<rparr>
                            | Inr q \<Rightarrow>
                                \<lparr> state = s\<lparr>clarify_question := q, step := step_clarify\<rparr>,
                                  shown = [], posted = sent, ending = Rerun \<rparr>)
                         else
                           \<lparr> state = s\<lparr>results := result, step := step_results\<rparr>,
                             shown = [], posted = sent, ending = Rerun \<rparr>)))
      else
        \<lparr> state = s, shown = [st_warning ''Please enter your conversation first.''],
          posted = [], ending = Completed \<rparr>)"

text \<open>The body of \<^verbatim>\<open>if st.button("Get Advice", key="clarify_button")\<close>.\<close>

definition on_clarify_button :: "env \<Rightarrow> session \<Rightarrow> run" where
  "on_clarify_button e s =
     (if py_strip (clarify_response s) \<noteq> [] then
        (let (sent, r) = get_career_advice e (clarify_response s) in
         case r of
           Inl x \<Rightarrow> \<lparr> state = s, shown = [], posted = sent, ending = Raised x \<rparr>
         | Inr result \<Rightarrow>
             (case py_in ''error'' result of
                Inl x \<Rightarrow> \<lparr> state = s, shown = [], posted = sent, ending = Raised x \<rparr>
              | Inr has_error \<Rightarrow>
                  if has_error then
                    (case py_getitem result ''error'' of
                       Inl x \<Rightarrow> \<lparr> state = s, shown = [], posted = sent, ending = Raised x \<rparr>
                     | Inr msg \<Rightarrow>
                         \<lparr> state = s, shown = [st_error msg], posted = sent,
                           ending = Completed \<rparr>)
                  else
                    (case py_in ''clarify'' result of
                       Inl x \<Rightarrow> \<lparr> state = s, shown = [], posted = sent, ending = Raised x \<rparr>
                     | Inr has_clarify \<Rightarrow>
                         if has_clarify then
                           (case py_getitem result ''clarify'' of
                              Inl x \<Rightarrow>
                                \<lparr> state = s, shown = [], posted = sent, ending = Raised x \<rparr>
                            | Inr q \<Rightarrow>
                                \<lparr> state = s\<lparr>clarify_question := q, clarify_response := []\<rparr>,
                                  shown = [], posted = sent, ending = Rerun \<rparr>)
                         else
                           \<lparr> state = s\<lparr>results := result, step := step_results\<rparr>,
                             shown = [], posted = sent, ending = Rerun \<rparr>)))
      else
        \<lparr> state = s, shown = [st_warning ''Please provide your response first.''],
          posted = [], ending = Completed \<rparr>)"

text \<open>
  The bodies of \<^verbatim>\<open>if st.button("Start Over", key="start_over")\<close> and of
  \<^verbatim>\<open>if st.button("Start New Analysis", key="new_analysis")\<close>: the same five
  assignments, then \<^verbatim>\<open>st.rerun()\<close>.
\<close>

definition on_start_over :: "session \<Rightarrow> run" where
  "on_start_over s =
     \<lparr> state = s\<lparr>step := step_initial, conversation := [], clarify_question := JStr [],
                   clarify_response := [], results := JNull\<rparr>,
       shown = [], posted = [], ending = Rerun \<rparr>"

definition on_new_analysis :: "session \<Rightarrow> run" where
  "on_new_analysis s =
     \<lparr> state = s\<lparr>step := step_initial, conversation := [], clarify_question := JStr [],
                   clarify_response := [], results := JNull\<rparr>,
       shown = [], posted = [], ending = Rerun \<rparr>"

text \<open>An execution that passes a block without doing anything.\<close>

definition idle :: "session \<Rightarrow> run" where
  "idle s = \<lparr> state = s, shown = [], posted = [], ending = Completed \<rparr>"

text \<open>
  Step 1: the text area's value is written to \<open>conversation\<close>, then the button is
  tested.
\<close>

definition initial_step :: "env \<Rightarrow> widgets \<Rightarrow> session \<Rightarrow> run" where
  "initial_step e w s =
     (let s1 = s\<lparr>conversation := text_area w\<rparr>
      in if initial_button w then on_initial_button e s1 else idle s1)"

text \<open>
  Step 2: the text input's value is written to \<open>clarify_response\<close>; the first column
  tests "Get Advice"; when that block runs to its end, the second column tests
  "Start Over".
\<close>

definition clarify_step :: "env \<Rightarrow> widgets \<Rightarrow> session \<Rightarrow> run" where
  "clarify_step e w s =
     (let s1 = s\<lparr>clarify_response := text_input w\<rparr>;
          r1 = (if clarify_button w then on_clarify_button e s1 else idle s1)
      in if ending r1 = Completed \<and> start_over w then
           (let r2 = on_start_over (state r1)
            in r2\<lparr>shown := shown r1 @ shown r2, posted := posted r1 @ posted r2\<rparr>)
         else r1)"

text \<open>
  Step 3. Rendering shows three sections; the only thing recorded of it is the
  exception it may raise: each section tests \<^verbatim>\<open>name in results\<close> and then reads
  \<^verbatim>\<open>results[name]\<close>. The "Start New Analysis" button comes after the rendering.
\<close>

definition render_section :: "string \<Rightarrow> json \<Rightarrow> py_exc option" where
  "render_section name res =
     (case py_in name res of
        Inl x \<Rightarrow> Some x
      | Inr present \<Rightarrow>
          if present then
            (case py_getitem res name of Inl x \<Rightarrow> Some x | Inr v \<Rightarrow> None)
          else None)"

definition render_results :: "json \<Rightarrow> py_exc option" where
  "render_results res =
     (if py_truthy res then
        (case render_section ''interests'' res of
           Some x \<Rightarrow> Some x
         | None \<Rightarrow>
             (case render_section ''mapping'' res of
                Some x \<Rightarrow> Some x
              | None \<Rightarrow> render_section ''explanations'' res))
      else None)"

definition results_step :: "widgets \<Rightarrow> session \<Rightarrow> run" where
  "results_step w s =
     (case render_results (results s) of
        Some x \<Rightarrow> \<lparr> state = s, shown = [], posted = [], ending = Raised x \<rparr>
      | None \<Rightarrow> if new_analysis w then on_new_analysis s else idle s)"

text \<open>
  One execution of the whole script: without a credential it shows an error and
  stops; otherwise it runs the block of the current step.
\<close>

definition script :: "env \<Rightarrow> widgets \<Rightarrow> session \<Rightarrow> run" where
  "script e w s =
     (if API_KEY e = [] then
        \<lparr> state = s,
          shown = [st_error (JStr
            ''Please set OPENROUTER_API_KEY in your Streamlit secrets or .env file'')],
          posted = [], ending = Stopped \<rparr>
      else
        (case step s of
           step_initial \<Rightarrow> initial_step e w s
         | step_clarify \<Rightarrow> clarify_step e w s
         | step_results \<Rightarrow> results_step w s))"

section \<open>Outcomes\<close>

text \<open>
  The script has no outcome type: both "Get Advice" blocks sort the returned value
  by the same chain of tests, \<^verbatim>\<open>"error" in result\<close>, then \<^verbatim>\<open>"clarify" in result\<close>, then
  everything else. \<open>outcome_of\<close> is that chain, and \<open>fetchAdvice\<close> is the call
  followed by it; the specification speaks in these terms.
\<close>

datatype outcome = Error json | Clarify json | Result json

definition outcome_of :: "json \<Rightarrow> py_exc + outcome" where
  "outcome_of result =
     (case py_in ''error'' result of
        Inl x \<Rightarrow> Inl x
      | Inr has_error \<Rightarrow>
          if has_error then
            (case py_getitem result ''error'' of Inl x \<Rightarrow> Inl x | Inr msg \<Rightarrow> Inr (Error msg))
          else
            (case py_in ''clarify'' result of
               Inl x \<Rightarrow> Inl x
             | Inr has_clarify \<Rightarrow>
                 if has_clarify then
                   (case py_getitem result ''clarify'' of
                      Inl x \<Rightarrow> Inl x
                    | Inr q \<Rightarrow> Inr (Clarify q))
                 else Inr (Result result)))"

definition fetchAdvice :: "env \<Rightarrow> string \<Rightarrow> py_exc + outcome" where
  "fetchAdvice e conversationText =
     (case snd (get_career_advice e conversationText) of
        Inl x \<Rightarrow> Inl x
      | Inr result \<Rightarrow> outcome_of result)"

section \<open>Several executions in a row\<close>

text \<open>
  The script is executed once per interaction, each time with the widget values and
  the network of that moment. \<open>states_after\<close> lists the session after each execution.
\<close>

fun states_after :: "(env \<times> widgets) list \<Rightarrow> session \<Rightarrow> session list" where
  "states_after [] s = []"
| "states_after ((e, w) # rest) s =
     (let s1 = state (script e w s) in s1 # states_after rest s1)"

section \<open>Sample replies\<close>

text \<open>
  Concrete chat-completion replies, for evaluating the definitions. \<open>chat_body c\<close> is
  the text of a reply whose first choice has the message content \<open>c\<close>, and
  \<open>chat_value c\<close> is what the JSON decoder makes of it. \<open>sample_decoder\<close> decodes the
  documents listed, raises \<open>RecursionError\<close> on a text that opens with at least
  \<open>nesting_limit\<close> brackets, as the decoder does when the arrays it has entered
  exhaust the interpreter's recursion limit, and rejects every other string with
  \<open>JSONDecodeError\<close>, among them the two sample texts that are not JSON.
\<close>

fun json_escape :: "string \<Rightarrow> string" where
  "json_escape [] = []"
| "json_escape (c # cs) =
     (if c = CHR 0x22 \<or> c = CHR 0x5C then CHR 0x5C # c # json_escape cs
      else c # json_escape cs)"

definition chat_body :: "string \<Rightarrow> string" where
  \<open>chat_body c = ''{"choices": [{"message": {"content": "'' @ json_escape c @ ''"}}]}''\<close>

definition chat_value :: "string \<Rightarrow> json" where
  "chat_value c =
     JDict [(''choices'', JList [JDict [(''message'', JDict [(''content'', JStr c)])]])]"

definition plain_reply :: string where
  "plain_reply = '' Could you tell me more? ''"

definition clarify_reply :: string where
  \<open>clarify_reply = ''{"clarify": "What subjects do you enjoy?"}''\<close>

definition clarify_reply2 :: string where
  \<open>clarify_reply2 = ''{"clarify": "Do you prefer working with people or with tools?"}''\<close>

definition result_reply :: string where
  \<open>result_reply =
     ''{"interests": ["Art"], "mapping": {"Art": "Designer"}, "explanations": {"Designer": "Creative fit"}}''\<close>

definition error_clarify_reply :: string where
  \<open>error_clarify_reply =
     ''{"error": "not enough detail", "clarify": "What subjects do you enjoy?"}''\<close>

definition result_clarify_reply :: string where
  \<open>result_clarify_reply =
     ''{"interests": ["Art"], "mapping": {"Art": "Designer"}, "explanations": {"Designer": "Creative fit"}, "clarify": "Which kind of art?"}''\<close>

definition error_reply :: string where
  \<open>error_reply = ''{"error": "I can only help with career questions", "interests": []}''\<close>

definition deep_reply :: string where
  "deep_reply = CHR ''['' # replicate 99999 (CHR ''['')"

definition result_value :: json where
  "result_value =
     JDict [(''interests'', JList [JStr ''Art'']),
            (''mapping'', JDict [(''Art'', JStr ''Designer'')]),
            (''explanations'', JDict [(''Designer'', JStr ''Creative fit'')])]"

definition sample_documents :: "(string \<times> json) list" where
  "sample_documents =
     [(clarify_reply, JDict [(''clarify'', JStr ''What subjects do you enjoy?'')]),
      (clarify_reply2,
         JDict [(''clarify'', JStr ''Do you prefer working with people or with tools?'')]),
      (result_reply, result_value),
      (error_clarify_reply,
         JDict [(''error'', JStr ''not enough detail''),
                (''clarify'', JStr ''What subjects do you enjoy?'')]),
      (result_clarify_reply,
         JDict [(''interests'', JList [JStr ''Art'']),
                (''mapping'', JDict [(''Art'', JStr ''Designer'')]),
                (''explanations'', JDict [(''Designer'', JStr ''Creative fit'')]),
                (''clarify'', JStr ''Which kind of art?'')]),
      (error_reply,
         JDict [(''error'', JStr ''I can only help with career questions''),
                (''interests'', JList [])]),
      (chat_body plain_reply, chat_value plain_reply),
      (chat_body clarify_reply, chat_value clarify_reply),
      (chat_body clarify_reply2, chat_value clarify_reply2),
      (chat_body result_reply, chat_value result_reply),
      (chat_body error_clarify_reply, chat_value error_clarify_reply),
      (chat_body result_clarify_reply, chat_value result_clarify_reply),
      (chat_body error_reply, chat_value error_reply),
      (chat_body deep_reply, chat_value deep_reply)]"

definition nesting_limit :: nat where
  "nesting_limit = 1000"

definition sample_decoder :: "string \<Rightarrow> py_exc + json" where
  "sample_decoder s =
     (if nesting_limit \<le> length (takeWhile (\<lambda>ch. ch = CHR ''['') s) then Inl RecursionError
      else (case map_of sample_documents s of
              None \<Rightarrow> Inl JSONDecodeError
            | Some v \<Rightarrow> Inr v))"

definition sample_str_exc :: "py_exc \<Rightarrow> string" where
  "sample_str_exc x =
     (case x of
        OtherError d \<Rightarrow> d
      | RecursionError \<Rightarrow>
          ''maximum recursion depth exceeded while decoding a JSON array from a unicode string''
      | _ \<Rightarrow> ''exception'')"

text \<open>An environment whose network answers every request with the given reply.\<close>

definition env_replying :: "py_exc + response \<Rightarrow> env" where
  "env_replying reply =
     \<lparr> API_KEY = ''sk-sample'', json_loads = sample_decoder,
       requests_post = (\<lambda>req. reply), str_exc = sample_str_exc \<rparr>"

definition ok_reply :: "string \<Rightarrow> py_exc + response" where
  "ok_reply c = Inr \<lparr> status_code = 200, resp_text = chat_body c \<rparr>"

definition gateway_page :: response where
  "gateway_page =
     \<lparr> status_code = 200, resp_text = ''<html><body>502 Bad Gateway</body></html>'' \<rparr>"

definition server_error :: response where
  "server_error = \<lparr> status_code = 500, resp_text = ''Internal Server Error'' \<rparr>"

definition no_click :: widgets where
  "no_click =
     \<lparr> text_area = [], text_input = [], initial_button = False, clarify_button = False,
       start_over = False, new_analysis = False \<rparr>"

section \<open>Facts about the sample replies and the building blocks\<close>

lemmas sample_defs =
  sample_decoder_def sample_documents_def chat_body_def chat_value_def plain_reply_def
  clarify_reply_def clarify_reply2_def result_reply_def error_clarify_reply_def
  result_clarify_reply_def error_reply_def result_value_def env_replying_def ok_reply_def
  nesting_limit_def deep_reply_def

lemma posted_get_career_advice:
  "fst (get_career_advice e c) = [build_request e c]"
  by (simp add: get_career_advice_def Let_def)

lemma get_career_advice_200:
  assumes "requests_post e (build_request e c) = Inr r"
    and "status_code r = 200"
    and "json_loads e (resp_text r) = Inr body"
    and "message_content body = Inr (JStr content)"
  shows "snd (get_career_advice e c) =
           (case json_loads e content of
              Inl x \<Rightarrow>
                (if x = JSONDecodeError
                 then Inr (JDict [(''clarify'', JStr (py_strip content))])
                 else Inr (JDict [(''error'', JStr (''Error: '' @ str_exc e x))]))
            | Inr v \<Rightarrow> Inr v)"
  using assms
  by (simp add: get_career_advice_def Let_def loads_def on_exception_def split: sum.splits)

lemma get_career_advice_not_200:
  assumes "requests_post e (build_request e c) = Inr r"
    and "status_code r \<noteq> 200"
  shows "snd (get_career_advice e c) =
           Inr (JDict [(''error'',
                  JStr (''Request failed ('' @ str_int (status_code r) @ ''): '' @ resp_text r))])"
  using assms by (simp add: get_career_advice_def Let_def)

lemma get_career_advice_bad_body:
  assumes "requests_post e (build_request e c) = Inr r"
    and "status_code r = 200"
    and "json_loads e (resp_text r) = Inl JSONDecodeError"
  shows "snd (get_career_advice e c) = Inl UnboundLocalError"
  using assms by (simp add: get_career_advice_def Let_def on_exception_def)

lemma on_initial_button_by_outcome:
  assumes "py_strip (conversation s) \<noteq> []"
  shows "on_initial_button e s =
           (case fetchAdvice e (conversation s) of
              Inl x \<Rightarrow> \<lparr> state = s, shown = [],
                          posted = [build_request e (conversation s)], ending = Raised x \<rparr>
            | Inr (Error msg) \<Rightarrow>
                \<lparr> state = s, shown = [st_error msg],
                  posted = [build_request e (conversation s)], ending = Completed \<rparr>
            | Inr (Clarify q) \<Rightarrow>
                \<lparr> state = s\<lparr>clarify_question := q, step := step_clarify\<rparr>, shown = [],
                  posted = [build_request e (conversation s)], ending = Rerun \<rparr>
            | Inr (Result v) \<Rightarrow>
                \<lparr> state = s\<lparr>results := v, step := step_results\<rparr>, shown = [],
                  posted = [build_request e (conversation s)], ending = Rerun \<rparr>)"
proof -
  obtain sent r where g: "get_career_advice e (conversation s) = (sent, r)"
    by (cases "get_career_advice e (conversation s)")
  with posted_get_career_advice [of e "conversation s"]
  have sent: "sent = [build_request e (conversation s)]" by simp
  show ?thesis
    using assms g sent
    by (simp add: on_initial_button_def fetchAdvice_def outcome_of_def
             split: sum.splits)
qed

lemma on_clarify_button_by_outcome:
  assumes "py_strip (clarify_response s) \<noteq> []"
  shows "on_clarify_button e s =
           (case fetchAdvice e (clarify_response s) of
              Inl x \<Rightarrow> \<lparr> state = s, shown = [],
                          posted = [build_request e (clarify_response s)], ending = Raised x \<rparr>
            | Inr (Error msg) \<Rightarrow>
                \<lparr> state = s, shown = [st_error msg],
                  posted = [build_request e (clarify_response s)], ending = Completed \<rparr>
            | Inr (Clarify q) \<Rightarrow>
                \<lparr> state = s\<lparr>clarify_question := q, clarify_response := []\<rparr>, shown = [],
                  posted = [build_request e (clarify_response s)], ending = Rerun \<rparr>
            | Inr (Result v) \<Rightarrow>
                \<lparr> state = s\<lparr>results := v, step := step_results\<rparr>, shown = [],
                  posted = [build_request e (clarify_response s)], ending = Rerun \<rparr>)"
proof -
  obtain sent r where g: "get_career_advice e (clarify_response s) = (sent, r)"
    by (cases "get_career_advice e (clarify_response s)")
  with posted_get_career_advice [of e "clarify_response s"]
  have sent: "sent = [build_request e (clarify_response s)]" by simp
  show ?thesis
    using assms g sent
    by (simp add: on_clarify_button_def fetchAdvice_def outcome_of_def
             split: sum.splits)
qed

lemma py_strip_empty_iff: "py_strip s = [] \<longleftrightarrow> (\<forall>c \<in> set s. py_isspace c)"
proof
  assume "py_strip s = []"
  then have "dropWhile py_isspace (rev (dropWhile py_isspace s)) = []"
    by (simp add: py_strip_def)
  then have "\<forall>c \<in> set (dropWhile py_isspace s). py_isspace c"
    by simp
  moreover have "dropWhile py_isspace s = [] \<or> \<not> py_isspace (hd (dropWhile py_isspace s))"
    using hd_dropWhile [of py_isspace s] by blast
  ultimately have "dropWhile py_isspace s = []"
    by (cases "dropWhile py_isspace s") auto
  then show "\<forall>c \<in> set s. py_isspace c"
    by simp
next
  assume "\<forall>c \<in> set s. py_isspace c"
  then have "dropWhile py_isspace s = []"
    by simp
  then show "py_strip s = []"
    by (simp add: py_strip_def del: dropWhile_eq_Nil_conv)
qed


lemma env_replying_simps:
  "API_KEY (env_replying reply) = ''sk-sample''"
  "json_loads (env_replying reply) = sample_decoder"
  "requests_post (env_replying reply) req = reply"
  by (simp_all add: env_replying_def)

lemma message_content_chat_value: "message_content (chat_value c) = Inr (JStr c)"
  by (simp add: message_content_def chat_value_def)

lemma decode_bodies:
  "sample_decoder (chat_body plain_reply) = Inr (chat_value plain_reply)"
  "sample_decoder (chat_body clarify_reply) = Inr (chat_value clarify_reply)"
  "sample_decoder (chat_body clarify_reply2) = Inr (chat_value clarify_reply2)"
  "sample_decoder (chat_body result_reply) = Inr (chat_value result_reply)"
  "sample_decoder (chat_body error_clarify_reply) = Inr (chat_value error_clarify_reply)"
  "sample_decoder (chat_body result_clarify_reply) = Inr (chat_value result_clarify_reply)"
  "sample_decoder (chat_body error_reply) = Inr (chat_value error_reply)"
  by (simp_all add: sample_defs)

lemma decode_contents:
  "sample_decoder plain_reply = Inl JSONDecodeError"
  "sample_decoder clarify_reply = Inr (JDict [(''clarify'', JStr ''What subjects do you enjoy?'')])"
  "sample_decoder clarify_reply2 =
     Inr (JDict [(''clarify'', JStr ''Do you prefer working with people or with tools?'')])"
  "sample_decoder result_reply = Inr result_value"
  "sample_decoder error_clarify_reply =
     Inr (JDict [(''error'', JStr ''not enough detail''),
                  (''clarify'', JStr ''What subjects do you enjoy?'')])"
  "sample_decoder result_clarify_reply =
     Inr (JDict [(''interests'', JList [JStr ''Art'']),
                  (''mapping'', JDict [(''Art'', JStr ''Designer'')]),
                  (''explanations'', JDict [(''Designer'', JStr ''Creative fit'')]),
                  (''clarify'', JStr ''Which kind of art?'')])"
  "sample_decoder error_reply =
     Inr (JDict [(''error'', JStr ''I can only help with career questions''),
                  (''interests'', JList [])])"
  by (simp_all add: sample_defs)



lemma decode_gateway_page: "sample_decoder (resp_text gateway_page) = Inl JSONDecodeError"
  by (simp add: sample_defs gateway_page_def)

lemma strip_samples:
  "py_strip ''I like drawing'' = ''I like drawing''"
  "py_strip ''Mostly painting'' = ''Mostly painting''"
  "py_strip ''With tools'' = ''With tools''"
  "py_strip plain_reply = ''Could you tell me more?''"
  by (simp_all add: py_strip_def py_isspace_def plain_reply_def)

lemma session_reset_eq:
  "(s :: session)\<lparr>step := step_initial, conversation := [], clarify_question := JStr [],
       clarify_response := [], results := JNull\<rparr> = init_session"
  by (cases s) (simp add: init_session_def)

lemma script_clarify_round:
  assumes "step s = step_clarify"
    and "API_KEY e \<noteq> []"
    and "clarify_button w"
    and "py_strip (text_input w) \<noteq> []"
    and "fetchAdvice e (text_input w) = Inr (Clarify q)"
  shows "script e w s =
           \<lparr> state = s\<lparr>clarify_question := q, clarify_response := []\<rparr>, shown = [],
             posted = [build_request e (text_input w)], ending = Rerun \<rparr>"
  using assms
  by (simp add: script_def clarify_step_def Let_def on_clarify_button_by_outcome)

section \<open>Properties claimed by the specification\<close>




text \<open>
  Claim C2. When the reply has status 200 but its body is not a JSON document,
  \<^verbatim>\<open>response.json()\<close> raises before \<^verbatim>\<open>content\<close> is assigned; the first
  \<^verbatim>\<open>except\<close> clause then reads the unassigned variable, and the
  \<^verbatim>\<open>UnboundLocalError\<close> leaves the function: no value is returned, there is no
  outcome, and either "Get Advice" block ends with that exception.
\<close>

theorem non_json_body_raises_unbound_local:
  assumes "requests_post e (build_request e c) = Inr r"
    and "status_code r = 200"
    and "json_loads e (resp_text r) = Inl JSONDecodeError"
  shows "snd (get_career_advice e c) = Inl UnboundLocalError
       \<and> fetchAdvice e c = Inl UnboundLocalError
       \<and> (conversation s = c \<and> py_strip c \<noteq> [] \<longrightarrow>
            on_initial_button e s =
              \<lparr> state = s, shown = [], posted = [build_request e c],
                ending = Raised UnboundLocalError \<rparr>)
       \<and> (clarify_response s = c \<and> py_strip c \<noteq> [] \<longrightarrow>
            on_clarify_button e s =
              \<lparr> state = s, shown = [], posted = [build_request e c],
                ending = Raised UnboundLocalError \<rparr>)"
proof -
  have g: "snd (get_career_advice e c) = Inl UnboundLocalError"
    using assms by (rule get_career_advice_bad_body)
  then have f: "fetchAdvice e c = Inl UnboundLocalError"
    by (simp add: fetchAdvice_def)
  show ?thesis
    using g f by (auto simp: on_initial_button_by_outcome on_clarify_button_by_outcome)
qed


theorem non_json_body_raises_unbound_local_witness:
  "requests_post (env_replying (Inr gateway_page))
       (build_request (env_replying (Inr gateway_page)) ''I like drawing'') = Inr gateway_page
   \<and> status_code gateway_page = 200
   \<and> json_loads (env_replying (Inr gateway_page)) (resp_text gateway_page) = Inl JSONDecodeError
   \<and> snd (get_career_advice (env_replying (Inr gateway_page)) ''I like drawing'')
       = Inl UnboundLocalError
   \<and> ending (on_initial_button (env_replying (Inr gateway_page))
                (init_session\<lparr>conversation := ''I like drawing''\<rparr>))
       = Raised UnboundLocalError"
proof -
  let ?e = "env_replying (Inr gateway_page)"
  have h1: "requests_post ?e (build_request ?e ''I like drawing'') = Inr gateway_page"
    by (simp add: env_replying_simps)
  have h2: "status_code gateway_page = 200"
    by (simp add: gateway_page_def)
  have h3: "json_loads ?e (resp_text gateway_page) = Inl JSONDecodeError"
    by (simp add: env_replying_simps decode_gateway_page)
  from non_json_body_raises_unbound_local
         [OF h1 h2 h3, of "init_session\<lparr>conversation := ''I like drawing''\<rparr>"]
       h1 h2 h3
  show ?thesis by (simp add: strip_samples)
qed

text \<open>
  Claim C3. When the reply's status is not 200, \<^verbatim>\<open>get_career_advice\<close> returns the
  dict \<^verbatim>\<open>{"error": "Request failed (<status>): <body text>"}\<close>, an Error outcome whose
  message holds the status code in decimal and the raw body text; either "Get
  Advice" block then shows that message with \<^verbatim>\<open>st.error\<close>, assigns nothing to the
  session and runs on to the end, so the step stays what it was.
\<close>

theorem failed_status_is_error_and_changes_nothing:
  fixes e c r s
  defines "msg \<equiv> JStr (''Request failed ('' @ str_int (status_code r) @ ''): '' @ resp_text r)"
  assumes "requests_post e (build_request e c) = Inr r"
    and "status_code r \<noteq> 200"
  shows "snd (get_career_advice e c) = Inr (JDict [(''error'', msg)])
       \<and> fetchAdvice e c = Inr (Error msg)
       \<and> (conversation s = c \<and> py_strip c \<noteq> [] \<longrightarrow>
            on_initial_button e s =
              \<lparr> state = s, shown = [st_error msg], posted = [build_request e c],
                ending = Completed \<rparr>)
       \<and> (clarify_response s = c \<and> py_strip c \<noteq> [] \<longrightarrow>
            on_clarify_button e s =
              \<lparr> state = s, shown = [st_error msg], posted = [build_request e c],
                ending = Completed \<rparr>)"
proof -
  have g: "snd (get_career_advice e c) = Inr (JDict [(''error'', msg)])"
    unfolding msg_def using assms(2,3) by (rule get_career_advice_not_200)
  then have f: "fetchAdvice e c = Inr (Error msg)"
    by (simp add: fetchAdvice_def outcome_of_def)
  show ?thesis
    using g f by (auto simp: on_initial_button_by_outcome on_clarify_button_by_outcome)
qed

theorem failed_status_is_error_and_changes_nothing_witness:
  "requests_post (env_replying (Inr server_error))
       (build_request (env_replying (Inr server_error)) ''I like drawing'') = Inr server_error
   \<and> status_code server_error = 500
   \<and> snd (get_career_advice (env_replying (Inr server_error)) ''I like drawing'')
       = Inr (JDict [(''error'', JStr ''Request failed (500): Internal Server Error'')])
   \<and> on_initial_button (env_replying (Inr server_error))
        (init_session\<lparr>conversation := ''I like drawing''\<rparr>)
       = \<lparr> state = init_session\<lparr>conversation := ''I like drawing''\<rparr>,
           shown = [st_error (JStr ''Request failed (500): Internal Server Error'')],
           posted = [build_request (env_replying (Inr server_error)) ''I like drawing''],
           ending = Completed \<rparr>"
proof -
  let ?e = "env_replying (Inr server_error)"
  have h1: "requests_post ?e (build_request ?e ''I like drawing'') = Inr server_error"
    by (simp add: env_replying_simps)
  have h2: "status_code server_error \<noteq> 200"
    by (simp add: server_error_def)
  have d: "str_int 500 = ''500''"
    by (simp add: str_int_def str_nat.simps digit_char_def)
  from failed_status_is_error_and_changes_nothing
         [OF h1 h2, of "init_session\<lparr>conversation := ''I like drawing''\<rparr>"]
       h1 d
  show ?thesis by (simp add: strip_samples server_error_def)
qed


text \<open>
  Claim C4, as stated (every object with a \<^verbatim>\<open>clarify\<close> field gives a Clarify outcome
  and moves Initial to the clarification step), fails for an object that also has an
  \<^verbatim>\<open>error\<close> field: the handlers test \<^verbatim>\<open>"error" in result\<close> first. For the reply
  \<^verbatim>\<open>{"error": "not enough detail", "clarify": "What subjects do you enjoy?"}\<close> the
  outcome is Error, the question is not stored and the step stays \<open>step_initial\<close>.
\<close>

theorem clarify_beside_error_counterexample:
  "requests_post (env_replying (ok_reply error_clarify_reply))
       (build_request (env_replying (ok_reply error_clarify_reply)) ''I like drawing'')
     = Inr \<lparr> status_code = 200, resp_text = chat_body error_clarify_reply \<rparr>
   \<and> json_loads (env_replying (ok_reply error_clarify_reply)) (chat_body error_clarify_reply)
     = Inr (chat_value error_clarify_reply)
   \<and> message_content (chat_value error_clarify_reply) = Inr (JStr error_clarify_reply)
   \<and> json_loads (env_replying (ok_reply error_clarify_reply)) error_clarify_reply
     = Inr (JDict [(''error'', JStr ''not enough detail''),
                    (''clarify'', JStr ''What subjects do you enjoy?'')])
   \<and> fetchAdvice (env_replying (ok_reply error_clarify_reply)) ''I like drawing''
     = Inr (Error (JStr ''not enough detail''))
   \<and> fetchAdvice (env_replying (ok_reply error_clarify_reply)) ''I like drawing''
     \<noteq> Inr (Clarify (JStr ''What subjects do you enjoy?''))
   \<and> step (state (on_initial_button (env_replying (ok_reply error_clarify_reply))
                      (init_session\<lparr>conversation := ''I like drawing''\<rparr>)))
     = step_initial
   \<and> clarify_question (state (on_initial_button (env_replying (ok_reply error_clarify_reply))
                      (init_session\<lparr>conversation := ''I like drawing''\<rparr>)))
     \<noteq> JStr ''What subjects do you enjoy?''"
proof -
  let ?e = "env_replying (ok_reply error_clarify_reply)"
  let ?r = "\<lparr> status_code = 200, resp_text = chat_body error_clarify_reply \<rparr>"
  have h1: "requests_post ?e (build_request ?e ''I like drawing'') = Inr ?r"
    by (simp add: env_replying_simps ok_reply_def)
  have g: "snd (get_career_advice ?e ''I like drawing'') =
             Inr (JDict [(''error'', JStr ''not enough detail''),
                         (''clarify'', JStr ''What subjects do you enjoy?'')])"
    using get_career_advice_200 [OF h1, of "chat_value error_clarify_reply" error_clarify_reply]
    by (simp add: env_replying_simps decode_bodies decode_contents message_content_chat_value)
  have f: "fetchAdvice ?e ''I like drawing'' = Inr (Error (JStr ''not enough detail''))"
    using g by (simp add: fetchAdvice_def outcome_of_def)
  have b: "on_initial_button ?e (init_session\<lparr>conversation := ''I like drawing''\<rparr>) =
             \<lparr> state = init_session\<lparr>conversation := ''I like drawing''\<rparr>,
               shown = [st_error (JStr ''not enough detail'')],
               posted = [build_request ?e ''I like drawing''], ending = Completed \<rparr>"
    using f by (simp add: on_initial_button_by_outcome strip_samples)
  show ?thesis
    using h1 f b
    by (simp add: env_replying_simps decode_bodies decode_contents message_content_chat_value
          init_session_def)
qed

text \<open>
  Claim C4, amended: when the reply has status 200 and its message content decodes
  to a JSON object that has a \<^verbatim>\<open>clarify\<close> field and no \<^verbatim>\<open>error\<close> field, the function
  returns that object, the outcome is Clarify with exactly the field's value, and a
  submit from the initial step stores the value in \<open>clarify_question\<close> and sets the
  step to \<open>step_clarify\<close>.
\<close>

theorem clarify_reply_asks_question:
  assumes "requests_post e (build_request e c) = Inr r"
    and "status_code r = 200"
    and "json_loads e (resp_text r) = Inr body"
    and "message_content body = Inr (JStr content)"
    and "json_loads e content = Inr (JDict kvs)"
    and "map_of kvs ''clarify'' = Some q"
    and "map_of kvs ''error'' = None"
  shows "snd (get_career_advice e c) = Inr (JDict kvs)
       \<and> fetchAdvice e c = Inr (Clarify q)
       \<and> (conversation s = c \<and> py_strip c \<noteq> [] \<longrightarrow>
            on_initial_button e s =
              \<lparr> state = s\<lparr>clarify_question := q, step := step_clarify\<rparr>, shown = [],
                posted = [build_request e c], ending = Rerun \<rparr>)"
proof -
  have g: "snd (get_career_advice e c) = Inr (JDict kvs)"
    using get_career_advice_200 [OF assms(1-4)] assms(5) by simp
  then have f: "fetchAdvice e c = Inr (Clarify q)"
    using assms(6,7) by (simp add: fetchAdvice_def outcome_of_def)
  show ?thesis
    using g f by (auto simp: on_initial_button_by_outcome)
qed

theorem clarify_reply_asks_question_witness:
  "requests_post (env_replying (ok_reply clarify_reply))
       (build_request (env_replying (ok_reply clarify_reply)) ''I like drawing'')
     = Inr \<lparr> status_code = 200, resp_text = chat_body clarify_reply \<rparr>
   \<and> json_loads (env_replying (ok_reply clarify_reply)) (chat_body clarify_reply)
     = Inr (chat_value clarify_reply)
   \<and> message_content (chat_value clarify_reply) = Inr (JStr clarify_reply)
   \<and> json_loads (env_replying (ok_reply clarify_reply)) clarify_reply
     = Inr (JDict [(''clarify'', JStr ''What subjects do you enjoy?'')])
   \<and> fetchAdvice (env_replying (ok_reply clarify_reply)) ''I like drawing''
     = Inr (Clarify (JStr ''What subjects do you enjoy?''))
   \<and> state (on_initial_button (env_replying (ok_reply clarify_reply))
               (init_session\<lparr>conversation := ''I like drawing''\<rparr>))
     = \<lparr> step = step_clarify, conversation = ''I like drawing'',
         clarify_question = JStr ''What subjects do you enjoy?'',
         clarify_response = [], results = JNull \<rparr>"
proof -
  let ?e = "env_replying (ok_reply clarify_reply)"
  let ?r = "\<lparr> status_code = 200, resp_text = chat_body clarify_reply \<rparr>"
  let ?kvs = "[(''clarify'', JStr ''What subjects do you enjoy?'')]"
  have h1: "requests_post ?e (build_request ?e ''I like drawing'') = Inr ?r"
    by (simp add: env_replying_simps ok_reply_def)
  have h2: "status_code ?r = 200" by simp
  have h3: "json_loads ?e (resp_text ?r) = Inr (chat_value clarify_reply)"
    by (simp add: env_replying_simps decode_bodies)
  have h4: "message_content (chat_value clarify_reply) = Inr (JStr clarify_reply)"
    by (rule message_content_chat_value)
  have h5: "json_loads ?e clarify_reply = Inr (JDict ?kvs)"
    by (simp add: env_replying_simps decode_contents)
  have h6: "map_of ?kvs ''clarify'' = Some (JStr ''What subjects do you enjoy?'')" by simp
  have h7: "map_of ?kvs ''error'' = None" by simp
  from clarify_reply_asks_question
         [OF h1 h2 h3 h4 h5 h6 h7, of "init_session\<lparr>conversation := ''I like drawing''\<rparr>"]
       h1 h3 h4 h5
  show ?thesis by (simp add: strip_samples init_session_def)
qed

text \<open>
  Claim C5, as stated (every object with \<^verbatim>\<open>interests\<close>, \<^verbatim>\<open>mapping\<close> and
  \<^verbatim>\<open>explanations\<close> gives a Result outcome and moves to the results step), fails for an
  object that also has a \<^verbatim>\<open>clarify\<close> field: \<^verbatim>\<open>"clarify" in result\<close> is tested before the
  final \<^verbatim>\<open>else\<close>. For the sample reply with the three fields and
  \<^verbatim>\<open>"clarify": "Which kind of art?"\<close> the outcome is Clarify, nothing is stored in
  \<open>results\<close> and the step becomes \<open>step_clarify\<close>.
\<close>

theorem result_beside_clarify_counterexample:
  "requests_post (env_replying (ok_reply result_clarify_reply))
       (build_request (env_replying (ok_reply result_clarify_reply)) ''I like drawing'')
     = Inr \<lparr> status_code = 200, resp_text = chat_body result_clarify_reply \<rparr>
   \<and> json_loads (env_replying (ok_reply result_clarify_reply)) (chat_body result_clarify_reply)
     = Inr (chat_value result_clarify_reply)
   \<and> message_content (chat_value result_clarify_reply) = Inr (JStr result_clarify_reply)
   \<and> json_loads (env_replying (ok_reply result_clarify_reply)) result_clarify_reply
     = Inr (JDict [(''interests'', JList [JStr ''Art'']),
                    (''mapping'', JDict [(''Art'', JStr ''Designer'')]),
                    (''explanations'', JDict [(''Designer'', JStr ''Creative fit'')]),
                    (''clarify'', JStr ''Which kind of art?'')])
   \<and> fetchAdvice (env_replying (ok_reply result_clarify_reply)) ''I like drawing''
     = Inr (Clarify (JStr ''Which kind of art?''))
   \<and> step (state (on_initial_button (env_replying (ok_reply result_clarify_reply))
                      (init_session\<lparr>conversation := ''I like drawing''\<rparr>)))
     = step_clarify
   \<and> step (state (on_initial_button (env_replying (ok_reply result_clarify_reply))
                      (init_session\<lparr>conversation := ''I like drawing''\<rparr>)))
     \<noteq> step_results
   \<and> results (state (on_initial_button (env_replying (ok_reply result_clarify_reply))
                      (init_session\<lparr>conversation := ''I like drawing''\<rparr>)))
     = JNull"
proof -
  let ?e = "env_replying (ok_reply result_clarify_reply)"
  let ?r = "\<lparr> status_code = 200, resp_text = chat_body result_clarify_reply \<rparr>"
  have h1: "requests_post ?e (build_request ?e ''I like drawing'') = Inr ?r"
    by (simp add: env_replying_simps ok_reply_def)
  have g: "snd (get_career_advice ?e ''I like drawing'') =
             Inr (JDict [(''interests'', JList [JStr ''Art'']),
                    (''mapping'', JDict [(''Art'', JStr ''Designer'')]),
                    (''explanations'', JDict [(''Designer'', JStr ''Creative fit'')]),
                    (''clarify'', JStr ''Which kind of art?'')])"
    using get_career_advice_200 [OF h1, of "chat_value result_clarify_reply" result_clarify_reply]
    by (simp add: env_replying_simps decode_bodies decode_contents message_content_chat_value)
  have f: "fetchAdvice ?e ''I like drawing'' = Inr (Clarify (JStr ''Which kind of art?''))"
    using g by (simp add: fetchAdvice_def outcome_of_def)
  have b: "on_initial_button ?e (init_session\<lparr>conversation := ''I like drawing''\<rparr>) =
             \<lparr> state = init_session\<lparr>conversation := ''I like drawing'',
                         clarify_question := JStr ''Which kind of art?'', step := step_clarify\<rparr>,
               shown = [], posted = [build_request ?e ''I like drawing''], ending = Rerun \<rparr>"
    using f by (simp add: on_initial_button_by_outcome strip_samples)
  show ?thesis
    using h1 f b
    by (simp add: env_replying_simps decode_bodies decode_contents message_content_chat_value
          init_session_def)
qed

text \<open>
  Claim C5, amended: when the reply has status 200 and its message content decodes
  to a JSON object with neither an \<^verbatim>\<open>error\<close> nor a \<^verbatim>\<open>clarify\<close> field (such as one made of
  \<^verbatim>\<open>interests\<close>, \<^verbatim>\<open>mapping\<close> and \<^verbatim>\<open>explanations\<close>), the function returns the decoded
  object itself, so the Result outcome carries exactly the fields of the reply, none
  added and none defaulted; a submit from the initial step or from the clarification
  step stores that object in \<open>results\<close> and sets the step to \<open>step_results\<close>.
\<close>

theorem result_reply_is_stored:
  assumes "requests_post e (build_request e c) = Inr r"
    and "status_code r = 200"
    and "json_loads e (resp_text r) = Inr body"
    and "message_content body = Inr (JStr content)"
    and "json_loads e content = Inr (JDict kvs)"
    and "map_of kvs ''error'' = None"
    and "map_of kvs ''clarify'' = None"
  shows "snd (get_career_advice e c) = Inr (JDict kvs)
       \<and> fetchAdvice e c = Inr (Result (JDict kvs))
       \<and> (conversation s = c \<and> py_strip c \<noteq> [] \<longrightarrow>
            on_initial_button e s =
              \<lparr> state = s\<lparr>results := JDict kvs, step := step_results\<rparr>, shown = [],
                posted = [build_request e c], ending = Rerun \<rparr>)
       \<and> (clarify_response s = c \<and> py_strip c \<noteq> [] \<longrightarrow>
            on_clarify_button e s =
              \<lparr> state = s\<lparr>results := JDict kvs, step := step_results\<rparr>, shown = [],
                posted = [build_request e c], ending = Rerun \<rparr>)"
proof -
  have g: "snd (get_career_advice e c) = Inr (JDict kvs)"
    using get_career_advice_200 [OF assms(1-4)] assms(5) by simp
  then have f: "fetchAdvice e c = Inr (Result (JDict kvs))"
    using assms(6,7) by (simp add: fetchAdvice_def outcome_of_def)
  show ?thesis
    using g f by (auto simp: on_initial_button_by_outcome on_clarify_button_by_outcome)
qed

theorem result_reply_is_stored_witness:
  "requests_post (env_replying (ok_reply result_reply))
       (build_request (env_replying (ok_reply result_reply)) ''I like drawing'')
     = Inr \<lparr> status_code = 200, resp_text = chat_body result_reply \<rparr>
   \<and> json_loads (env_replying (ok_reply result_reply)) (chat_body result_reply)
     = Inr (chat_value result_reply)
   \<and> message_content (chat_value result_reply) = Inr (JStr result_reply)
   \<and> json_loads (env_replying (ok_reply result_reply)) result_reply
     = Inr (JDict [(''interests'', JList [JStr ''Art'']),
                    (''mapping'', JDict [(''Art'', JStr ''Designer'')]),
                    (''explanations'', JDict [(''Designer'', JStr ''Creative fit'')])])
   \<and> fetchAdvice (env_replying (ok_reply result_reply)) ''I like drawing''
     = Inr (Result (JDict [(''interests'', JList [JStr ''Art'']),
                    (''mapping'', JDict [(''Art'', JStr ''Designer'')]),
                    (''explanations'', JDict [(''Designer'', JStr ''Creative fit'')])]))
   \<and> state (on_initial_button (env_replying (ok_reply result_reply))
               (init_session\<lparr>conversation := ''I like drawing''\<rparr>))
     = \<lparr> step = step_results, conversation = ''I like drawing'',
         clarify_question = JStr [], clarify_response = [],
         results = JDict [(''interests'', JList [JStr ''Art'']),
                    (''mapping'', JDict [(''Art'', JStr ''Designer'')]),
                    (''explanations'', JDict [(''Designer'', JStr ''Creative fit'')])] \<rparr>"
proof -
  let ?e = "env_replying (ok_reply result_reply)"
  let ?r = "\<lparr> status_code = 200, resp_text = chat_body result_reply \<rparr>"
  let ?kvs = "[(''interests'', JList [JStr ''Art'']),
               (''mapping'', JDict [(''Art'', JStr ''Designer'')]),
               (''explanations'', JDict [(''Designer'', JStr ''Creative fit'')])]"
  have h1: "requests_post ?e (build_request ?e ''I like drawing'') = Inr ?r"
    by (simp add: env_replying_simps ok_reply_def)
  have h2: "status_code ?r = 200" by simp
  have h3: "json_loads ?e (resp_text ?r) = Inr (chat_value result_reply)"
    by (simp add: env_replying_simps decode_bodies)
  have h4: "message_content (chat_value result_reply) = Inr (JStr result_reply)"
    by (rule message_content_chat_value)
  have h5: "json_loads ?e result_reply = Inr (JDict ?kvs)"
    by (simp add: env_replying_simps decode_contents result_value_def)
  have h6: "map_of ?kvs ''error'' = None" by simp
  have h7: "map_of ?kvs ''clarify'' = None" by simp
  from result_reply_is_stored
         [OF h1 h2 h3 h4 h5 h6 h7, of "init_session\<lparr>conversation := ''I like drawing''\<rparr>"]
       h1 h3 h4 h5
  show ?thesis by (simp add: strip_samples init_session_def)
qed


text \<open>
  Claim C6. When the submitted text is empty or made of whitespace only, neither
  "Get Advice" block calls \<^verbatim>\<open>get_career_advice\<close>: no request is posted, the session is
  left as it is and one warning is shown. For a whole execution of the script the
  only assignment is the one every execution makes before it looks at the button,
  writing the widget's text to the field it is bound to.
\<close>

theorem blank_submit_makes_no_call:
  assumes "\<forall>ch \<in> set txt. py_isspace ch"
  shows "(conversation s = txt \<longrightarrow>
            on_initial_button e s =
              \<lparr> state = s, shown = [st_warning ''Please enter your conversation first.''],
                posted = [], ending = Completed \<rparr>)
       \<and> (clarify_response s = txt \<longrightarrow>
            on_clarify_button e s =
              \<lparr> state = s, shown = [st_warning ''Please provide your response first.''],
                posted = [], ending = Completed \<rparr>)
       \<and> (API_KEY e \<noteq> [] \<and> step s = step_initial \<and> initial_button w \<and> text_area w = txt \<longrightarrow>
            script e w s =
              \<lparr> state = s\<lparr>conversation := txt\<rparr>,
                shown = [st_warning ''Please enter your conversation first.''],
                posted = [], ending = Completed \<rparr>)
       \<and> (API_KEY e \<noteq> [] \<and> step s = step_clarify \<and> clarify_button w \<and> \<not> start_over w
              \<and> text_input w = txt \<longrightarrow>
            script e w s =
              \<lparr> state = s\<lparr>clarify_response := txt\<rparr>,
                shown = [st_warning ''Please provide your response first.''],
                posted = [], ending = Completed \<rparr>)"
proof -
  from assms have blank: "py_strip txt = []"
    by (simp only: py_strip_empty_iff)
  show ?thesis
    using blank
    by (auto simp: on_initial_button_def on_clarify_button_def script_def initial_step_def
          clarify_step_def Let_def)
qed

theorem blank_submit_makes_no_call_witness:
  "py_isspace (CHR '' '') \<and> py_isspace (CHR 0x09) \<and> py_isspace (CHR 0x0A)
   \<and> on_initial_button (env_replying (ok_reply result_reply))
        (init_session\<lparr>conversation := [CHR '' '', CHR 0x09, CHR 0x0A]\<rparr>)
     = \<lparr> state = init_session\<lparr>conversation := [CHR '' '', CHR 0x09, CHR 0x0A]\<rparr>,
         shown = [st_warning ''Please enter your conversation first.''],
         posted = [], ending = Completed \<rparr>
   \<and> script (env_replying (ok_reply result_reply))
        (no_click\<lparr>text_input := [CHR '' '', CHR 0x09, CHR 0x0A], clarify_button := True\<rparr>)
        (init_session\<lparr>step := step_clarify, conversation := ''I like drawing''\<rparr>)
     = \<lparr> state = init_session\<lparr>step := step_clarify, conversation := ''I like drawing'',
                   clarify_response := [CHR '' '', CHR 0x09, CHR 0x0A]\<rparr>,
         shown = [st_warning ''Please provide your response first.''],
         posted = [], ending = Completed \<rparr>"
proof -
  have h: "\<forall>ch \<in> set [CHR '' '', CHR 0x09, CHR 0x0A]. py_isspace ch"
    by (simp add: py_isspace_def)
  from blank_submit_makes_no_call
         [OF h, of "init_session\<lparr>conversation := [CHR '' '', CHR 0x09, CHR 0x0A]\<rparr>"
            "env_replying (ok_reply result_reply)"]
       blank_submit_makes_no_call
         [OF h, of "init_session\<lparr>step := step_clarify, conversation := ''I like drawing''\<rparr>"
            "env_replying (ok_reply result_reply)"
            "no_click\<lparr>text_input := [CHR '' '', CHR 0x09, CHR 0x0A], clarify_button := True\<rparr>"]
       h
  show ?thesis by (simp add: env_replying_simps no_click_def init_session_def)
qed

text \<open>
  Claim C7. Whatever the session holds, the "Start Over" block and the "Start New
  Analysis" block leave it at its defaults: step \<open>step_initial\<close>, \<open>conversation\<close>,
  \<open>clarify_question\<close> and \<open>clarify_response\<close> the empty string, \<open>results\<close> \<^verbatim>\<open>None\<close>. This is
  also the session after an execution of the script in which the button is clicked
  (in the results step the button is reached when rendering raises nothing).
\<close>

theorem reset_buttons_restore_defaults:
  "on_start_over s =
     \<lparr> state = \<lparr> step = step_initial, conversation = [], clarify_question = JStr [],
                 clarify_response = [], results = JNull \<rparr>,
       shown = [], posted = [], ending = Rerun \<rparr>
   \<and> on_new_analysis s =
     \<lparr> state = \<lparr> step = step_initial, conversation = [], clarify_question = JStr [],
                 clarify_response = [], results = JNull \<rparr>,
       shown = [], posted = [], ending = Rerun \<rparr>
   \<and> (API_KEY e \<noteq> [] \<and> step s = step_clarify \<and> \<not> clarify_button w \<and> start_over w \<longrightarrow>
        state (script e w s) = init_session \<and> ending (script e w s) = Rerun)
   \<and> (API_KEY e \<noteq> [] \<and> step s = step_results \<and> render_results (results s) = None
          \<and> new_analysis w \<longrightarrow>
        state (script e w s) = init_session \<and> ending (script e w s) = Rerun)"
proof -
  have a: "on_start_over s = \<lparr> state = init_session, shown = [], posted = [], ending = Rerun \<rparr>"
    by (simp add: on_start_over_def session_reset_eq)
  have b: "on_new_analysis s = \<lparr> state = init_session, shown = [], posted = [], ending = Rerun \<rparr>"
    by (simp add: on_new_analysis_def session_reset_eq)
  have c: "state (on_start_over s') = init_session \<and> ending (on_start_over s') = Rerun" for s'
    by (simp add: on_start_over_def session_reset_eq)
  show ?thesis
    using a b c
    by (auto simp: script_def clarify_step_def results_step_def idle_def Let_def
          init_session_def)
qed

theorem reset_buttons_restore_defaults_witness:
  "state (on_start_over
     \<lparr> step = step_clarify, conversation = ''I like drawing'',
       clarify_question = JStr ''What subjects do you enjoy?'',
       clarify_response = ''Mostly painting'', results = JNull \<rparr>) = init_session
   \<and> render_results result_value = None
   \<and> state (script (env_replying (ok_reply result_reply)) (no_click\<lparr>new_analysis := True\<rparr>)
       \<lparr> step = step_results, conversation = ''I like drawing'',
         clarify_question = JStr ''What subjects do you enjoy?'',
         clarify_response = [], results = result_value \<rparr>) = init_session
   \<and> state (script (env_replying (ok_reply result_reply)) (no_click\<lparr>start_over := True\<rparr>)
       \<lparr> step = step_clarify, conversation = ''I like drawing'',
         clarify_question = JStr ''What subjects do you enjoy?'',
         clarify_response = ''Mostly painting'', results = JNull \<rparr>) = init_session"
proof -
  have r: "render_results result_value = None"
    by (simp add: render_results_def render_section_def result_value_def)
  from reset_buttons_restore_defaults
         [of "\<lparr> step = step_clarify, conversation = ''I like drawing'',
               clarify_question = JStr ''What subjects do you enjoy?'',
               clarify_response = ''Mostly painting'', results = JNull \<rparr>"
             "env_replying (ok_reply result_reply)" "no_click\<lparr>start_over := True\<rparr>"]
       reset_buttons_restore_defaults
         [of "\<lparr> step = step_results, conversation = ''I like drawing'',
               clarify_question = JStr ''What subjects do you enjoy?'',
               clarify_response = [], results = result_value \<rparr>"
             "env_replying (ok_reply result_reply)" "no_click\<lparr>new_analysis := True\<rparr>"]
       r
  show ?thesis by (simp add: env_replying_simps no_click_def init_session_def)
qed


text \<open>
  Claim C8. Start in the clarification step and let any number of executions follow
  in which "Get Advice" is clicked with a non-blank response and the outcome is
  Clarify. After each of them the session is the starting session with
  \<open>clarify_question\<close> overwritten by that execution's question and \<open>clarify_response\<close>
  reset to the empty string; in particular the step is still \<open>step_clarify\<close>. The list
  of executions has any length: nothing bounds the loop.
\<close>

theorem repeated_clarify_keeps_asking:
  assumes "step s = step_clarify"
    and "\<forall>(e, w, q) \<in> set rounds.
           API_KEY e \<noteq> [] \<and> clarify_button w \<and> py_strip (text_input w) \<noteq> []
           \<and> fetchAdvice e (text_input w) = Inr (Clarify q)"
  shows "states_after (map (\<lambda>(e, w, q). (e, w)) rounds) s =
           map (\<lambda>(e, w, q). s\<lparr>clarify_question := q, clarify_response := []\<rparr>) rounds"
  using assms
proof (induction rounds arbitrary: s)
  case Nil
  show ?case by simp
next
  case (Cons round rest)
  obtain e w q where round: "round = (e, w, q)"
    by (cases round)
  let ?s1 = "s\<lparr>clarify_question := q, clarify_response := []\<rparr>"
  from Cons.prems round
  have run1: "script e w s =
                \<lparr> state = ?s1, shown = [], posted = [build_request e (text_input w)],
                  ending = Rerun \<rparr>"
    by (intro script_clarify_round) simp_all
  have step1: "step ?s1 = step_clarify"
    using Cons.prems(1) by simp
  have rest: "\<forall>(e, w, q) \<in> set rest.
           API_KEY e \<noteq> [] \<and> clarify_button w \<and> py_strip (text_input w) \<noteq> []
           \<and> fetchAdvice e (text_input w) = Inr (Clarify q)"
    using Cons.prems(2) by simp
  have "states_after (map (\<lambda>(e, w, q). (e, w)) rest) ?s1 =
          map (\<lambda>(e, w, q). ?s1\<lparr>clarify_question := q, clarify_response := []\<rparr>) rest"
    using step1 rest by (rule Cons.IH)
  also have "\<dots> = map (\<lambda>(e, w, q). s\<lparr>clarify_question := q, clarify_response := []\<rparr>) rest"
    by simp
  finally show ?case
    using round run1 by simp
qed

theorem repeated_clarify_keeps_asking_witness:
  "API_KEY (env_replying (ok_reply clarify_reply)) \<noteq> []
   \<and> py_strip ''Mostly painting'' \<noteq> []
   \<and> fetchAdvice (env_replying (ok_reply clarify_reply)) ''Mostly painting''
     = Inr (Clarify (JStr ''What subjects do you enjoy?''))
   \<and> API_KEY (env_replying (ok_reply clarify_reply2)) \<noteq> []
   \<and> py_strip ''With tools'' \<noteq> []
   \<and> fetchAdvice (env_replying (ok_reply clarify_reply2)) ''With tools''
     = Inr (Clarify (JStr ''Do you prefer working with people or with tools?''))
   \<and> states_after
        [(env_replying (ok_reply clarify_reply),
          no_click\<lparr>text_input := ''Mostly painting'', clarify_button := True\<rparr>),
         (env_replying (ok_reply clarify_reply2),
          no_click\<lparr>text_input := ''With tools'', clarify_button := True\<rparr>)]
        \<lparr> step = step_clarify, conversation = ''I like drawing'',
          clarify_question = JStr ''Could you tell me more?'',
          clarify_response = [], results = JNull \<rparr>
     = [\<lparr> step = step_clarify, conversation = ''I like drawing'',
          clarify_question = JStr ''What subjects do you enjoy?'',
          clarify_response = [], results = JNull \<rparr>,
        \<lparr> step = step_clarify, conversation = ''I like drawing'',
          clarify_question = JStr ''Do you prefer working with people or with tools?'',
          clarify_response = [], results = JNull \<rparr>]"
proof -
  let ?e1 = "env_replying (ok_reply clarify_reply)"
  let ?e2 = "env_replying (ok_reply clarify_reply2)"
  let ?w1 = "no_click\<lparr>text_input := ''Mostly painting'', clarify_button := True\<rparr>"
  let ?w2 = "no_click\<lparr>text_input := ''With tools'', clarify_button := True\<rparr>"
  let ?q1 = "JStr ''What subjects do you enjoy?''"
  let ?q2 = "JStr ''Do you prefer working with people or with tools?''"
  let ?s = "\<lparr> step = step_clarify, conversation = ''I like drawing'',
              clarify_question = JStr ''Could you tell me more?'',
              clarify_response = [], results = JNull \<rparr>"
  have g1: "snd (get_career_advice ?e1 ''Mostly painting'') = Inr (JDict [(''clarify'', ?q1)])"
    using get_career_advice_200
            [of ?e1 "''Mostly painting''" "\<lparr> status_code = 200, resp_text = chat_body clarify_reply \<rparr>"
                "chat_value clarify_reply" clarify_reply]
    by (simp add: env_replying_simps ok_reply_def decode_bodies decode_contents
          message_content_chat_value)
  have g2: "snd (get_career_advice ?e2 ''With tools'') = Inr (JDict [(''clarify'', ?q2)])"
    using get_career_advice_200
            [of ?e2 "''With tools''" "\<lparr> status_code = 200, resp_text = chat_body clarify_reply2 \<rparr>"
                "chat_value clarify_reply2" clarify_reply2]
    by (simp add: env_replying_simps ok_reply_def decode_bodies decode_contents
          message_content_chat_value)
  have f1: "fetchAdvice ?e1 (text_input ?w1) = Inr (Clarify ?q1)"
    using g1 by (simp add: fetchAdvice_def outcome_of_def no_click_def)
  have f2: "fetchAdvice ?e2 (text_input ?w2) = Inr (Clarify ?q2)"
    using g2 by (simp add: fetchAdvice_def outcome_of_def no_click_def)
  have h2: "\<forall>(e, w, q) \<in> set [(?e1, ?w1, ?q1), (?e2, ?w2, ?q2)].
              API_KEY e \<noteq> [] \<and> clarify_button w \<and> py_strip (text_input w) \<noteq> []
              \<and> fetchAdvice e (text_input w) = Inr (Clarify q)"
    using f1 f2 by (simp add: env_replying_simps no_click_def strip_samples)
  have h1: "step ?s = step_clarify" by simp
  from repeated_clarify_keeps_asking [OF h1 h2] f1 f2
  show ?thesis by (simp add: env_replying_simps no_click_def strip_samples)
qed

text \<open>
  Claim C9. A non-blank response submitted in the clarification step makes exactly
  one call, \<^verbatim>\<open>get_career_advice(st.session_state.clarify_response)\<close>: the one request
  posted carries as its user message \<^verbatim>\<open>"Conversation: "\<close> followed by the response and
  nothing else, and the block leaves \<open>conversation\<close> as it was, so no transcript builds
  up from round to round.
\<close>

theorem clarify_submit_sends_the_response_alone:
  assumes "py_strip (clarify_response s) \<noteq> []"
  shows "fst (get_career_advice e (clarify_response s)) = posted (on_clarify_button e s)
       \<and> map payload (posted (on_clarify_button e s)) =
           [JDict
              [(''model'', JStr ''mistralai/devstral-small:free''),
               (''messages'', JList
                  [JDict [(''role'', JStr ''system''), (''content'', JStr system_prompt)],
                   JDict [(''role'', JStr ''user''),
                          (''content'', JStr (''Conversation: '' @ clarify_response s))]])]]
       \<and> conversation (state (on_clarify_button e s)) = conversation s
       \<and> (API_KEY e \<noteq> [] \<and> step s' = step_clarify \<and> clarify_button w
            \<and> text_input w = clarify_response s \<longrightarrow>
          posted (script e w s') = [build_request e (clarify_response s)]
          \<and> (\<not> start_over w \<longrightarrow> conversation (state (script e w s')) = conversation s'))"
proof -
  have p: "posted (on_clarify_button e s1) = [build_request e (clarify_response s1)]
         \<and> conversation (state (on_clarify_button e s1)) = conversation s1"
    if "py_strip (clarify_response s1) \<noteq> []" for s1
    using that
    by (simp add: on_clarify_button_by_outcome split: sum.splits outcome.splits)
  have q: "posted (script e w s') = [build_request e (clarify_response s)]
         \<and> (\<not> start_over w \<longrightarrow> conversation (state (script e w s')) = conversation s')"
    if "API_KEY e \<noteq> []" "step s' = step_clarify" "clarify_button w"
       "text_input w = clarify_response s"
    using that assms p [of "s'\<lparr>clarify_response := clarify_response s\<rparr>"]
    by (simp add: script_def clarify_step_def Let_def on_start_over_def)
  show ?thesis
    using p [OF assms] q
    by (simp add: posted_get_career_advice build_request_def)
qed

theorem clarify_submit_sends_the_response_alone_witness:
  "py_strip ''Mostly painting'' \<noteq> []
   \<and> map payload (posted (on_clarify_button (env_replying (ok_reply result_reply))
        \<lparr> step = step_clarify, conversation = ''I like drawing'',
          clarify_question = JStr ''What subjects do you enjoy?'',
          clarify_response = ''Mostly painting'', results = JNull \<rparr>))
     = [JDict
          [(''model'', JStr ''mistralai/devstral-small:free''),
           (''messages'', JList
              [JDict [(''role'', JStr ''system''), (''content'', JStr system_prompt)],
               JDict [(''role'', JStr ''user''),
                      (''content'', JStr ''Conversation: Mostly painting'')]])]]
   \<and> conversation (state (on_clarify_button (env_replying (ok_reply result_reply))
        \<lparr> step = step_clarify, conversation = ''I like drawing'',
          clarify_question = JStr ''What subjects do you enjoy?'',
          clarify_response = ''Mostly painting'', results = JNull \<rparr>))
     = ''I like drawing''"
proof -
  let ?s = "\<lparr> step = step_clarify, conversation = ''I like drawing'',
              clarify_question = JStr ''What subjects do you enjoy?'',
              clarify_response = ''Mostly painting'', results = JNull \<rparr>"
  have h: "py_strip (clarify_response ?s) \<noteq> []"
    by (simp add: strip_samples)
  from clarify_submit_sends_the_response_alone
         [OF h, of "env_replying (ok_reply result_reply)" ?s no_click] h
  show ?thesis by simp
qed

text \<open>
  Claim C10. When a reply with status 200 has a message content that decodes to a
  JSON object with an \<^verbatim>\<open>error\<close> key, the outcome is Error whatever else the object
  holds, because \<^verbatim>\<open>"error" in result\<close> is the first test: either "Get Advice" block
  shows the key's value with \<^verbatim>\<open>st.error\<close> and assigns nothing, so the step does not
  change and neither a question nor a result is stored.
\<close>

theorem error_key_in_reply_is_an_error:
  assumes "requests_post e (build_request e c) = Inr r"
    and "status_code r = 200"
    and "json_loads e (resp_text r) = Inr body"
    and "message_content body = Inr (JStr content)"
    and "json_loads e content = Inr (JDict kvs)"
    and "map_of kvs ''error'' = Some m"
  shows "fetchAdvice e c = Inr (Error m)
       \<and> (conversation s = c \<and> py_strip c \<noteq> [] \<longrightarrow>
            on_initial_button e s =
              \<lparr> state = s, shown = [st_error m], posted = [build_request e c],
                ending = Completed \<rparr>)
       \<and> (clarify_response s = c \<and> py_strip c \<noteq> [] \<longrightarrow>
            on_clarify_button e s =
              \<lparr> state = s, shown = [st_error m], posted = [build_request e c],
                ending = Completed \<rparr>)"
proof -
  have g: "snd (get_career_advice e c) = Inr (JDict kvs)"
    using get_career_advice_200 [OF assms(1-4)] assms(5) by simp
  then have f: "fetchAdvice e c = Inr (Error m)"
    using assms(6) by (simp add: fetchAdvice_def outcome_of_def)
  show ?thesis
    using f by (auto simp: on_initial_button_by_outcome on_clarify_button_by_outcome)
qed

theorem error_key_in_reply_is_an_error_witness:
  "requests_post (env_replying (ok_reply error_reply))
       (build_request (env_replying (ok_reply error_reply)) ''Mostly painting'')
     = Inr \<lparr> status_code = 200, resp_text = chat_body error_reply \<rparr>
   \<and> json_loads (env_replying (ok_reply error_reply)) (chat_body error_reply)
     = Inr (chat_value error_reply)
   \<and> message_content (chat_value error_reply) = Inr (JStr error_reply)
   \<and> json_loads (env_replying (ok_reply error_reply)) error_reply
     = Inr (JDict [(''error'', JStr ''I can only help with career questions''),
                    (''interests'', JList [])])
   \<and> fetchAdvice (env_replying (ok_reply error_reply)) ''Mostly painting''
     = Inr (Error (JStr ''I can only help with career questions''))
   \<and> on_clarify_button (env_replying (ok_reply error_reply))
        \<lparr> step = step_clarify, conversation = ''I like drawing'',
          clarify_question = JStr ''What subjects do you enjoy?'',
          clarify_response = ''Mostly painting'', results = JNull \<rparr>
     = \<lparr> state = \<lparr> step = step_clarify, conversation = ''I like drawing'',
                   clarify_question = JStr ''What subjects do you enjoy?'',
                   clarify_response = ''Mostly painting'', results = JNull \<rparr>,
         shown = [st_error (JStr ''I can only help with career questions'')],
         posted = [build_request (env_replying (ok_reply error_reply)) ''Mostly painting''],
         ending = Completed \<rparr>"
proof -
  let ?e = "env_replying (ok_reply error_reply)"
  let ?r = "\<lparr> status_code = 200, resp_text = chat_body error_reply \<rparr>"
  let ?kvs = "[(''error'', JStr ''I can only help with career questions''),
               (''interests'', JList [])]"
  let ?s = "\<lparr> step = step_clarify, conversation = ''I like drawing'',
              clarify_question = JStr ''What subjects do you enjoy?'',
              clarify_response = ''Mostly painting'', results = JNull \<rparr>"
  have h1: "requests_post ?e (build_request ?e ''Mostly painting'') = Inr ?r"
    by (simp add: env_replying_simps ok_reply_def)
  have h2: "status_code ?r = 200" by simp
  have h3: "json_loads ?e (resp_text ?r) = Inr (chat_value error_reply)"
    by (simp add: env_replying_simps decode_bodies)
  have h4: "message_content (chat_value error_reply) = Inr (JStr error_reply)"
    by (rule message_content_chat_value)
  have h5: "json_loads ?e error_reply = Inr (JDict ?kvs)"
    by (simp add: env_replying_simps decode_contents)
  have h6: "map_of ?kvs ''error'' = Some (JStr ''I can only help with career questions'')"
    by simp
  from error_key_in_reply_is_an_error [OF h1 h2 h3 h4 h5 h6, of ?s] h1 h3 h4 h5
  show ?thesis by (simp add: strip_samples)
qed

end
